theory Spec2Isabelle
  imports Complex_Main "HOL-Library.Log_Nat"
begin

section \<open>Python values\<close>

text \<open>
  The two scripts, \<^verbatim>\<open>fitbit_host.py\<close> (the Runner) and \<^verbatim>\<open>fitbit_login.py\<close> (the
  Authorizer), move JSON values between files, HTTP bodies and request fields. A value
  read by \<^verbatim>\<open>json.load\<close> or \<^verbatim>\<open>r.json()\<close> is a \<open>json\<close>; a Python dict keeps its
  insertion order, so an object is an association list. A finite float is the rational
  number it denotes; the parser also reads \<^verbatim>\<open>NaN\<close> and the two infinities. A Python str
  is kept as its UTF-8 encoding, one \<open>char\<close> for each byte.
\<close>

datatype json =
    JNull
  | JBool bool
  | JInt int
  | JFloat rat
  | JNaN
  | JInfinity bool
  | JStr string
  | JArr "json list"
  | JObj "(string \<times> json) list"

text \<open>
  The text of a file or of an HTTP body: either text the JSON parser rejects, or the
  document it parses to.
\<close>

datatype document = NotJson | Json json

text \<open>
  \<^verbatim>\<open>raise SystemExit(arg)\<close> carries an exit code or a message; every other exception
  of the scripts derives from \<^verbatim>\<open>Exception\<close>.
\<close>

datatype exit_status = ExitCode int | ExitMsg string

datatype exn =
    SystemExit exit_status
  | KeyError string
  | TypeError
  | AttributeError
  | ValueError
  | OverflowError
  | JSONDecodeError
  | ConnectionError
  | HTTPError int
  | OSError

text \<open>\<^verbatim>\<open>d[k]\<close>: only a dict can be indexed by a string, and the key must be there.\<close>

definition subscript :: "json \<Rightarrow> string \<Rightarrow> exn + json" where
  "subscript d k =
     (case d of
        JObj kvs \<Rightarrow> (case map_of kvs k of None \<Rightarrow> Inl (KeyError k) | Some v \<Rightarrow> Inr v)
      | _ \<Rightarrow> Inl TypeError)"

text \<open>\<^verbatim>\<open>d.get(k, default)\<close>: only a dict has the method.\<close>

definition get :: "json \<Rightarrow> string \<Rightarrow> json \<Rightarrow> exn + json" where
  "get d k dflt =
     (case d of
        JObj kvs \<Rightarrow> Inr (case map_of kvs k of None \<Rightarrow> dflt | Some v \<Rightarrow> v)
      | _ \<Rightarrow> Inl AttributeError)"

fun starts_with :: "string \<Rightarrow> string \<Rightarrow> bool" where
  "starts_with s [] = True"
| "starts_with [] (p # ps) = False"
| "starts_with (c # cs) (p # ps) = (c = p \<and> starts_with cs ps)"

fun has_substring :: "string \<Rightarrow> string \<Rightarrow> bool" where
  "has_substring [] p = (p = [])"
| "has_substring (c # cs) p = (starts_with (c # cs) p \<or> has_substring cs p)"

text \<open>
  \<^verbatim>\<open>k in d\<close> for a string \<open>k\<close>: key membership in a dict, element membership in a list,
  substring test in a string, and a TypeError on anything else.
\<close>

definition contains :: "json \<Rightarrow> string \<Rightarrow> exn + bool" where
  "contains d k =
     (case d of
        JObj kvs \<Rightarrow> Inr (map_of kvs k \<noteq> None)
      | JArr xs \<Rightarrow> Inr (JStr k \<in> set xs)
      | JStr s \<Rightarrow> Inr (has_substring s k)
      | _ \<Rightarrow> Inl TypeError)"

subsection \<open>The conversion \<^verbatim>\<open>int(x)\<close>\<close>

text \<open>
  \<^verbatim>\<open>int(x)\<close> on a value read from JSON: an int is itself, a bool is 0 or 1, a finite
  float is truncated towards zero, an infinity is an OverflowError and NaN a ValueError, and
  anything but a string is a TypeError. What \<^verbatim>\<open>int\<close> makes of a string depends on the
  interpreter (its Unicode tables of digits and spaces, its limit on the number of digits),
  so the conversion of strings is a parameter: None stands for the ValueError.
\<close>

definition py_int :: "(string \<Rightarrow> int option) \<Rightarrow> json \<Rightarrow> exn + int" where
  "py_int of_str v =
     (case v of
        JInt n \<Rightarrow> Inr n
      | JBool b \<Rightarrow> Inr (if b then 1 else 0)
      | JFloat q \<Rightarrow> Inr (if 0 \<le> q then \<lfloor>q\<rfloor> else \<lceil>q\<rceil>)
      | JNaN \<Rightarrow> Inl ValueError
      | JInfinity _ \<Rightarrow> Inl OverflowError
      | JStr s \<Rightarrow> (case of_str s of None \<Rightarrow> Inl ValueError | Some n \<Rightarrow> Inr n)
      | _ \<Rightarrow> Inl TypeError)"

subsection \<open>Floats\<close>

text \<open>
  Python's float is the IEEE 754 double. The Runner uses three float operations:
  the conversion of an int, one multiplication, and \<^verbatim>\<open>round(x, 3)\<close>. Each returns
  the double nearest to the exact result, ties going to the even mantissa.
\<close>

definition rne :: "rat \<Rightarrow> int" where
  "rne q =
     (let f = \<lfloor>q\<rfloor>; d = q - of_int f
      in if d < 1 / 2 then f else if 1 / 2 < d then f + 1 else if even f then f else f + 1)"

text \<open>The binary exponent of a non-zero rational: \<open>2 powi ilog2 q \<le> \<bar>q\<bar> < 2 powi (ilog2 q + 1)\<close>.\<close>

definition ilog2 :: "rat \<Rightarrow> int" where
  "ilog2 q =
     (let (a, b) = quotient_of \<bar>q\<bar>; k = bitlen a - bitlen b
      in if 2 powi k \<le> \<bar>q\<bar> then k else k - 1)"

text \<open>
  Rounding to 53 significant bits, with the exponent bounded below as for subnormal
  numbers. The upper end of the range is checked where the program can reach it, in
  \<open>float_of_int\<close>.
\<close>

definition nearest_double :: "rat \<Rightarrow> rat" where
  "nearest_double q =
     (if q = 0 then 0
      else let e = max (ilog2 q) (- 1022) - 52
           in of_int (rne (q / 2 powi e)) * 2 powi e)"

text \<open>The implicit \<^verbatim>\<open>float(n)\<close> of \<^verbatim>\<open>n * 0.0008\<close>: OverflowError (here None) beyond the doubles.\<close>

definition float_of_int :: "int \<Rightarrow> rat option" where
  "float_of_int n =
     (let x = nearest_double (of_int n) in if \<bar>x\<bar> < 2 ^ 1024 then Some x else None)"

text \<open>The literal \<^verbatim>\<open>0.0008\<close>.\<close>

definition c0008 :: rat where
  "c0008 = nearest_double (8 / 10000)"

definition float_mul :: "rat \<Rightarrow> rat \<Rightarrow> rat" where
  "float_mul x y = nearest_double (x * y)"

text \<open>
  \<^verbatim>\<open>round(x, 3)\<close>: the decimal with three places nearest to the exact value of \<open>x\<close>
  (ties to even), read back as a double.
\<close>

definition py_round3 :: "rat \<Rightarrow> rat" where
  "py_round3 x = nearest_double (of_int (rne (x * 1000)) / 1000)"

section \<open>The environment\<close>

text \<open>
  A reading of the clock, given by the two renderings the scripts take of it:
  \<^verbatim>\<open>strftime('%Y-%m-%d')\<close> and \<^verbatim>\<open>isoformat()\<close>.
\<close>

record datetime =
  ymd :: string
  iso :: string

datatype verb = GET | POST

text \<open>
  A header value is a literal, \<^verbatim>\<open>f"Bearer {token}"\<close>, or
  \<^verbatim>\<open>"Basic " + base64(f"{client_id}:{client_secret}")\<close>; the last two are kept by
  the values they are formatted from.
\<close>

datatype header = Plain string | Bearer json | Basic json json

record request =
  verb :: verb
  url :: string
  headers :: "(string \<times> header) list"
  data :: "(string \<times> json) list"

record response =
  status_code :: int
  body :: document

text \<open>
  What becomes of one call of \<^verbatim>\<open>requests.get\<close> or \<^verbatim>\<open>requests.post\<close>: the service
  answers, or the call raises (the connection fails, or the library cannot send the request).
\<close>

datatype reply = Reply response | NoReply

text \<open>
  An argument of \<^verbatim>\<open>print\<close>; a printed line is the list of its arguments. \<open>PUrl\<close> is
  a URL with an urlencoded query, \<open>PFmt\<close> an f-string with the values it formats.
\<close>

datatype item =
    PStr string
  | PVal json
  | PText document
  | PUrl string "(string \<times> json) list"
  | PExn exn
  | PFmt "item list"

text \<open>
  The one event at the Authorizer's callback listener: binding the port fails, no request
  arrives before the timeout, or a GET request with this request target arrives.
\<close>

datatype inbound = BindFails | NoRequest | GetRequest string

record page =
  status :: int
  page_headers :: "(string \<times> string) list"
  html :: string

text \<open>
  Everything outside the process: the files by name, the replies the remote service will
  give (in the order of the requests), the requests sent so far, the clock (its n-th
  reading), the lines printed, the event at the callback listener and the pages it served.
  Two fields say what the interpreter's library does where that depends on its version and
  its Unicode data: \<^verbatim>\<open>int\<close> on a string, and whether \<^verbatim>\<open>urlparse\<close> rejects a request
  target with a ValueError (unbalanced brackets, or a bracketed host that is no IPv6 address).
\<close>

record world =
  files :: "string \<rightharpoonup> document"
  replies :: "reply list"
  sent :: "request list"
  clock :: "nat \<Rightarrow> datetime"
  ticks :: nat
  stdout :: "item list list"
  callback :: inbound
  served :: "page list"
  int_of_str :: "string \<Rightarrow> int option"
  urlparse_raises :: "string \<Rightarrow> bool"

definition utcnow :: "world \<Rightarrow> datetime \<times> world" where
  "utcnow w = (clock w (ticks w), w\<lparr>ticks := Suc (ticks w)\<rparr>)"

definition print :: "item list \<Rightarrow> world \<Rightarrow> world" where
  "print line w = w\<lparr>stdout := stdout w @ [line]\<rparr>"

text \<open>
  \<^verbatim>\<open>requests.get\<close> and \<^verbatim>\<open>requests.post\<close>: the request is recorded, and the next reply
  of the service is its result. With no reply left the call raises. The requests recorded
  are the calls made.
\<close>

definition send :: "request \<Rightarrow> world \<Rightarrow> (exn + response) \<times> world" where
  "send rq w =
     (case replies w of
        [] \<Rightarrow> (Inl ConnectionError, w\<lparr>sent := sent w @ [rq]\<rparr>)
      | NoReply # rs \<Rightarrow> (Inl ConnectionError, w\<lparr>replies := rs, sent := sent w @ [rq]\<rparr>)
      | Reply r # rs \<Rightarrow> (Inr r, w\<lparr>replies := rs, sent := sent w @ [rq]\<rparr>))"

text \<open>\<^verbatim>\<open>json.dump(v, open(name, "w"))\<close>.\<close>

definition write_json :: "string \<Rightarrow> json \<Rightarrow> world \<Rightarrow> world" where
  "write_json name v w = w\<lparr>files := (files w)(name \<mapsto> Json v)\<rparr>"

definition CONFIG_FILE :: string where
  "CONFIG_FILE = ''fitbit_config.json''"

definition TOKEN_FILE :: string where
  "TOKEN_FILE = ''fitbit_tokens.json''"

definition token_url :: string where
  "token_url = ''https://api.fitbit.com/oauth2/token''"

definition base_api :: string where
  "base_api = ''https://api.fitbit.com/1/user/-''"

text \<open>\<^verbatim>\<open>headers[k] = v\<close> on a dict: the value changes in place, a new key goes last.\<close>

fun set_item :: "(string \<times> 'a) list \<Rightarrow> string \<Rightarrow> 'a \<Rightarrow> (string \<times> 'a) list" where
  "set_item [] k v = [(k, v)]"
| "set_item ((k', v') # kvs) k v = (if k' = k then (k, v) # kvs else (k', v') # set_item kvs k v)"

section \<open>The Runner: \<^verbatim>\<open>fitbit_host.py\<close>\<close>

text \<open>
  The attributes of a \<^verbatim>\<open>FitbitHost\<close> object. \<^verbatim>\<open>token_url\<close> and \<^verbatim>\<open>base_api\<close> are
  the constants above.
\<close>

record FitbitHost =
  client_id :: json
  client_secret :: json
  daily_steps :: int
  start_time :: json
  access_token :: json
  refresh_token :: json

text \<open>
  \<^verbatim>\<open>FitbitHost.load_config\<close> reads the file and sets four attributes; the model returns
  them. It raises SystemExit with a message when the file is missing.
\<close>

definition FitbitHost_load_config :: "world \<Rightarrow> exn + json \<times> json \<times> int \<times> json" where
  "FitbitHost_load_config w =
     (case files w CONFIG_FILE of
        None \<Rightarrow>
          Inl (SystemExit (ExitMsg (CONFIG_FILE @ '' missing. Provide client_id and client_secret.'')))
      | Some NotJson \<Rightarrow> Inl JSONDecodeError
      | Some (Json cfg) \<Rightarrow>
          (case subscript cfg ''client_id'' of Inl e \<Rightarrow> Inl e | Inr cid \<Rightarrow>
          (case subscript cfg ''client_secret'' of Inl e \<Rightarrow> Inl e | Inr csec \<Rightarrow>
          (case get cfg ''daily_steps'' (JInt 10000) of Inl e \<Rightarrow> Inl e | Inr ds \<Rightarrow>
          (case py_int (int_of_str w) ds of Inl e \<Rightarrow> Inl e | Inr n \<Rightarrow>
          (case get cfg ''start_time'' (JStr ''08:00'') of Inl e \<Rightarrow> Inl e | Inr st \<Rightarrow>
             Inr (cid, csec, n, st)))))))"

definition FitbitHost_load_tokens :: "world \<Rightarrow> exn + json \<times> json" where
  "FitbitHost_load_tokens w =
     (case files w TOKEN_FILE of
        None \<Rightarrow>
          Inl (SystemExit (ExitMsg (TOKEN_FILE @ '' missing. Upload tokens obtained from login script.'')))
      | Some NotJson \<Rightarrow> Inl JSONDecodeError
      | Some (Json t) \<Rightarrow>
          (case get t ''access_token'' JNull of Inl e \<Rightarrow> Inl e | Inr atok \<Rightarrow>
          (case get t ''refresh_token'' JNull of Inl e \<Rightarrow> Inl e | Inr rtok \<Rightarrow>
             Inr (atok, rtok))))"

text \<open>\<^verbatim>\<open>FitbitHost.__init__\<close>: the configuration first, then the tokens.\<close>

definition FitbitHost_init :: "world \<Rightarrow> exn + FitbitHost" where
  "FitbitHost_init w =
     (case FitbitHost_load_config w of Inl e \<Rightarrow> Inl e | Inr (cid, csec, n, st) \<Rightarrow>
     (case FitbitHost_load_tokens w of Inl e \<Rightarrow> Inl e | Inr (atok, rtok) \<Rightarrow>
        Inr \<lparr>client_id = cid, client_secret = csec, daily_steps = n, start_time = st,
             access_token = atok, refresh_token = rtok\<rparr>))"

definition FitbitHost_save_tokens ::
  "FitbitHost \<Rightarrow> json \<Rightarrow> json \<Rightarrow> world \<Rightarrow> FitbitHost \<times> world" where
  "FitbitHost_save_tokens h atok rtok w =
     (let (now, w1) = utcnow w;
          out = JObj [(''access_token'', atok), (''refresh_token'', rtok),
                      (''updated_at'', JStr (iso now @ ''Z''))];
          w2 = write_json TOKEN_FILE out w1;
          w3 = print [PStr (''Updated '' @ TOKEN_FILE)] w2
      in (h\<lparr>access_token := atok, refresh_token := rtok\<rparr>, w3))"

definition form_urlencoded :: header where
  "form_urlencoded = Plain ''application/x-www-form-urlencoded''"

text \<open>The request of \<^verbatim>\<open>refresh_access_token\<close>.\<close>

definition refresh_request :: "FitbitHost \<Rightarrow> request" where
  "refresh_request h =
     \<lparr>verb = POST, url = token_url,
      headers = [(''Authorization'', Basic (client_id h) (client_secret h)),
                 (''Content-Type'', form_urlencoded)],
      data = [(''grant_type'', JStr ''refresh_token''),
              (''refresh_token'', refresh_token h)]\<rparr>"

text \<open>
  A method that returns a bool and may change the object returns the pair of both; an
  exception leaves the world as it was when it was raised.
\<close>

definition FitbitHost_refresh_access_token ::
  "FitbitHost \<Rightarrow> world \<Rightarrow> (exn + bool \<times> FitbitHost) \<times> world" where
  "FitbitHost_refresh_access_token h w =
     (case send (refresh_request h) w of
        (Inl e, w1) \<Rightarrow> (Inl e, w1)
      | (Inr r, w1) \<Rightarrow>
          if status_code r \<noteq> 200 then
            (Inr (False, h),
             print [PStr ''Refresh failed:'', PVal (JInt (status_code r)), PText (body r)] w1)
          else
            (case body r of
               NotJson \<Rightarrow> (Inl JSONDecodeError, w1)
             | Json jd \<Rightarrow>
                 (case subscript jd ''access_token'' of Inl e \<Rightarrow> (Inl e, w1) | Inr atok \<Rightarrow>
                 (case get jd ''refresh_token'' JNull of Inl e \<Rightarrow> (Inl e, w1) | Inr rtok \<Rightarrow>
                    (let (h', w2) = FitbitHost_save_tokens h atok rtok w1
                     in (Inr (True, h'), w2))))))"

text \<open>The request of \<^verbatim>\<open>refresh_if_needed\<close>, the probe.\<close>

definition probe_request :: "FitbitHost \<Rightarrow> datetime \<Rightarrow> request" where
  "probe_request h now =
     \<lparr>verb = GET, url = base_api @ ''/activities/date/'' @ ymd now @ ''.json'',
      headers = [(''Authorization'', Bearer (access_token h))],
      data = []\<rparr>"

definition FitbitHost_refresh_if_needed ::
  "FitbitHost \<Rightarrow> world \<Rightarrow> (exn + bool \<times> FitbitHost) \<times> world" where
  "FitbitHost_refresh_if_needed h w =
     (let (now, w1) = utcnow w
      in case send (probe_request h now) w1 of
           (Inl e, w2) \<Rightarrow> (Inl e, w2)
         | (Inr r, w2) \<Rightarrow>
             if status_code r = 401 then FitbitHost_refresh_access_token h w2
             else (Inr (True, h), w2))"

text \<open>
  The request of \<^verbatim>\<open>log_steps\<close>, from the effective step count, date and start time,
  and the float \<^verbatim>\<open>steps * 0.0008\<close> is taken of.
\<close>

definition log_request :: "FitbitHost \<Rightarrow> int \<Rightarrow> rat \<Rightarrow> json \<Rightarrow> json \<Rightarrow> request" where
  "log_request h steps x date st =
     (let duration_minutes = max (steps div 100) 1
      in \<lparr>verb = POST, url = base_api @ ''/activities.json'',
          headers = [(''Authorization'', Bearer (access_token h)),
                     (''Content-Type'', form_urlencoded)],
          data = [(''activityId'', JInt 90013),
                  (''startTime'', st),
                  (''durationMillis'', JInt (duration_minutes * 60 * 1000)),
                  (''date'', date),
                  (''distance'', JFloat (py_round3 (float_mul x c0008))),
                  (''steps'', JInt steps)]\<rparr>)"

text \<open>
  The end of \<^verbatim>\<open>log_steps\<close>, from the test of the final status on: the statements that
  follow the retry block and run on the first response or on the one of the retry.
\<close>

definition log_steps_report ::
  "FitbitHost \<Rightarrow> int \<Rightarrow> json \<Rightarrow> response \<Rightarrow> world \<Rightarrow> (exn + bool \<times> FitbitHost) \<times> world" where
  "log_steps_report h steps date r w =
     (if status_code r \<noteq> 200 \<and> status_code r \<noteq> 201 then
        (Inr (False, h),
         print [PStr ''Log failed:'', PVal (JInt (status_code r)), PText (body r)] w)
      else
        (case body r of
           NotJson \<Rightarrow> (Inl JSONDecodeError, w)
         | Json jd \<Rightarrow>
             (let w1 = print [PStr ''Logged steps:'', PVal (JInt steps), PStr ''date:'', PVal date] w
              in case contains jd ''activityLog'' of
                   Inl e \<Rightarrow> (Inl e, w1)
                 | Inr False \<Rightarrow> (Inr (True, h), w1)
                 | Inr True \<Rightarrow>
                     (case subscript jd ''activityLog'' of Inl e \<Rightarrow> (Inl e, w1) | Inr al \<Rightarrow>
                     (case contains al ''logId'' of
                        Inl e \<Rightarrow> (Inl e, w1)
                      | Inr False \<Rightarrow> (Inr (True, h), w1)
                      | Inr True \<Rightarrow>
                          (case subscript al ''logId'' of Inl e \<Rightarrow> (Inl e, w1) | Inr v \<Rightarrow>
                             (Inr (True, h), print [PStr ''logId:'', PVal v] w1)))))))"

text \<open>
  \<^verbatim>\<open>log_steps(steps=None, date=None, start_time=None)\<close>. The clock is read only when
  no date is given; the int is converted to a float while the form is built, before
  anything is sent.
\<close>

definition FitbitHost_log_steps ::
  "FitbitHost \<Rightarrow> int option \<Rightarrow> json option \<Rightarrow> json option \<Rightarrow> world
     \<Rightarrow> (exn + bool \<times> FitbitHost) \<times> world" where
  "FitbitHost_log_steps h steps_arg date_arg start_time_arg w =
     (let steps = (case steps_arg of None \<Rightarrow> daily_steps h | Some s \<Rightarrow> s);
          (date, w1) = (case date_arg of
                          None \<Rightarrow> (let (now, w') = utcnow w in (JStr (ymd now), w'))
                        | Some d \<Rightarrow> (d, w));
          st = (case start_time_arg of None \<Rightarrow> start_time h | Some t \<Rightarrow> t)
      in case float_of_int steps of
           None \<Rightarrow> (Inl OverflowError, w1)
         | Some x \<Rightarrow>
             (let rq = log_request h steps x date st
              in case send rq w1 of
                   (Inl e, w2) \<Rightarrow> (Inl e, w2)
                 | (Inr r, w2) \<Rightarrow>
                     if status_code r = 401 then
                       (let w3 = print [PStr ''Token expired, refreshing...''] w2
                        in case FitbitHost_refresh_access_token h w3 of
                             (Inl e, w4) \<Rightarrow> (Inl e, w4)
                           | (Inr (ok, h'), w4) \<Rightarrow>
                               if \<not> ok then (Inr (False, h'), w4)
                               else
                                 (case send (rq\<lparr>headers := set_item (headers rq) ''Authorization''
                                                   (Bearer (access_token h'))\<rparr>) w4 of
                                    (Inl e, w5) \<Rightarrow> (Inl e, w5)
                                  | (Inr r', w5) \<Rightarrow> log_steps_report h' steps date r' w5))
                     else log_steps_report h steps date r w2))"

text \<open>\<^verbatim>\<open>main\<close> of the Runner.\<close>

definition host_main :: "world \<Rightarrow> (exn + unit) \<times> world" where
  "host_main w =
     (case FitbitHost_init w of
        Inl e \<Rightarrow> (Inl e, w)
      | Inr h \<Rightarrow>
          (let (now, w1) = utcnow w;
               w2 = print [PStr ''Running at'', PStr (iso now @ ''Z'')] w1
           in case FitbitHost_refresh_if_needed h w2 of
                (Inl e, w3) \<Rightarrow> (Inl e, w3)
              | (Inr (ok, h1), w3) \<Rightarrow>
                  if \<not> ok then (Inr (), print [PStr ''Token refresh/check failed.''] w3)
                  else
                    (case FitbitHost_log_steps h1 None None None w3 of
                       (Inl e, w4) \<Rightarrow> (Inl e, w4)
                     | (Inr (ok', h2), w4) \<Rightarrow>
                         if ok' then (Inr (), print [PStr ''Done.''] w4)
                         else (Inr (), print [PStr ''Failed.''] w4))))"

text \<open>
  The exit code of a Python process: 0 when the script runs to its end, the argument of
  an uncaught SystemExit when it is an int and 1 when it is a message, and 1 for any other
  uncaught exception.
\<close>

definition exit_code :: "exn + unit \<Rightarrow> int" where
  "exit_code res =
     (case res of
        Inr _ \<Rightarrow> 0
      | Inl (SystemExit (ExitCode n)) \<Rightarrow> n
      | Inl _ \<Rightarrow> 1)"

text \<open>The Runner as a script: \<^verbatim>\<open>if __name__ == "__main__": main()\<close>.\<close>

definition host_script :: "world \<Rightarrow> int \<times> world" where
  "host_script w = (let (res, w') = host_main w in (exit_code res, w'))"

section \<open>The Authorizer: \<^verbatim>\<open>fitbit_login.py\<close>\<close>

subsection \<open>The query string of the callback\<close>

text \<open>
  \<^verbatim>\<open>urlparse(path).query\<close> of a request target: a ValueError when \<^verbatim>\<open>urlparse\<close>
  rejects the target, and else what stands between the first \<open>?\<close> and the fragment,
  once tabs, line feeds and carriage returns are removed.
  \<^verbatim>\<open>parse_qs\<close> splits it at \<open>&\<close>, splits each field at its first \<open>=\<close>, drops
  the fields without \<open>=\<close> and those with an empty value (the default
  \<^verbatim>\<open>keep_blank_values=False\<close>), and decodes \<open>+\<close> and the percent escapes of names
  and values.
\<close>

definition split_query :: "string \<Rightarrow> string" where
  "split_query path =
     (let url = filter (\<lambda>c. (of_char c :: nat) \<notin> {9, 10, 13}) path
      in case dropWhile (\<lambda>c. c \<noteq> CHR ''?'') (takeWhile (\<lambda>c. c \<noteq> CHR ''#'') url) of
           [] \<Rightarrow> []
         | _ # q \<Rightarrow> q)"

definition urlparse_query :: "world \<Rightarrow> string \<Rightarrow> exn + string" where
  "urlparse_query w path =
     (if urlparse_raises w path then Inl ValueError else Inr (split_query path))"

definition is_hex :: "char \<Rightarrow> bool" where
  "is_hex c =
     (let n = (of_char c :: nat)
      in (48 \<le> n \<and> n \<le> 57) \<or> (65 \<le> n \<and> n \<le> 70) \<or> (97 \<le> n \<and> n \<le> 102))"

definition hex_val :: "char \<Rightarrow> nat" where
  "hex_val c =
     (let n = (of_char c :: nat)
      in if n \<le> 57 then n - 48 else if n \<le> 70 then n - 55 else n - 87)"

text \<open>\<^verbatim>\<open>unquote_to_bytes\<close>: an escape \<open>%XX\<close> becomes the byte, anything else stays.\<close>

fun unquote_to_bytes :: "string \<Rightarrow> string" where
  "unquote_to_bytes (c # a # b # cs) =
     (if c = CHR ''%'' \<and> is_hex a \<and> is_hex b
      then char_of (hex_val a * 16 + hex_val b) # unquote_to_bytes cs
      else c # unquote_to_bytes (a # b # cs))"
| "unquote_to_bytes cs = cs"

text \<open>
  \<^verbatim>\<open>bytes.decode('utf-8', 'replace')\<close>, the result again in UTF-8: a well-formed
  sequence stays, and each ill-formed one (a byte that cannot start a sequence, or a start
  with the continuation bytes that can follow it, up to the first byte that cannot) becomes
  U+FFFD.
\<close>

definition replacement :: string where
  "replacement = [char_of (0xEF :: nat), char_of (0xBF :: nat), char_of (0xBD :: nat)]"

definition continuation :: "char \<Rightarrow> bool" where
  "continuation c = (0x80 \<le> (of_char c :: nat) \<and> (of_char c :: nat) < 0xC0)"

text \<open>The second byte of a sequence of three or of four bytes, after the start byte \<open>b\<close>.\<close>

definition second_of_three :: "nat \<Rightarrow> char \<Rightarrow> bool" where
  "second_of_three b c =
     (continuation c \<and> \<not> (b = 0xE0 \<and> (of_char c :: nat) < 0xA0) \<and>
      \<not> (b = 0xED \<and> 0xA0 \<le> (of_char c :: nat)))"

definition second_of_four :: "nat \<Rightarrow> char \<Rightarrow> bool" where
  "second_of_four b c =
     (continuation c \<and> \<not> (b = 0xF0 \<and> (of_char c :: nat) < 0x90) \<and>
      \<not> (b = 0xF4 \<and> 0x90 \<le> (of_char c :: nat)))"

fun decode_replace :: "string \<Rightarrow> string" where
  "decode_replace [] = []"
| "decode_replace (c # cs) =
     (let b = (of_char c :: nat)
      in if b < 0x80 then c # decode_replace cs
         else if b < 0xC2 then replacement @ decode_replace cs
         else if b < 0xE0 then
           (case cs of
              [] \<Rightarrow> replacement
            | c2 # r \<Rightarrow>
                if continuation c2 then c # c2 # decode_replace r
                else replacement @ decode_replace cs)
         else if b < 0xF0 then
           (case cs of
              [] \<Rightarrow> replacement
            | c2 # r \<Rightarrow>
                if \<not> second_of_three b c2 then replacement @ decode_replace cs
                else
                  (case r of
                     [] \<Rightarrow> replacement
                   | c3 # r' \<Rightarrow>
                       if continuation c3 then c # c2 # c3 # decode_replace r'
                       else replacement @ decode_replace r))
         else if b < 0xF5 then
           (case cs of
              [] \<Rightarrow> replacement
            | c2 # r \<Rightarrow>
                if \<not> second_of_four b c2 then replacement @ decode_replace cs
                else
                  (case r of
                     [] \<Rightarrow> replacement
                   | c3 # r' \<Rightarrow>
                       if \<not> continuation c3 then replacement @ decode_replace r
                       else
                         (case r' of
                            [] \<Rightarrow> replacement
                          | c4 # r'' \<Rightarrow>
                              if continuation c4 then c # c2 # c3 # c4 # decode_replace r''
                              else replacement @ decode_replace r')))
         else replacement @ decode_replace cs)"

text \<open>
  \<^verbatim>\<open>unquote\<close> of a str: each run of ASCII characters is unquoted to bytes and decoded,
  and the characters outside ASCII stay.
\<close>

definition ascii :: "char \<Rightarrow> bool" where
  "ascii c = ((of_char c :: nat) < 0x80)"

function unquote :: "string \<Rightarrow> string" where
  "unquote [] = []"
| "unquote (c # cs) =
     (if ascii c
      then decode_replace (unquote_to_bytes (takeWhile ascii (c # cs))) @
           unquote (dropWhile ascii (c # cs))
      else takeWhile (\<lambda>x. \<not> ascii x) (c # cs) @ unquote (dropWhile (\<lambda>x. \<not> ascii x) (c # cs)))"
  by pat_completeness auto
termination
  by (relation "measure length") (auto simp: length_dropWhile_le less_Suc_eq_le)

definition plus_to_space :: "string \<Rightarrow> string" where
  "plus_to_space s = map (\<lambda>c. if c = CHR ''+'' then CHR '' '' else c) s"

text \<open>\<^verbatim>\<open>s.split(sep)\<close>.\<close>

fun split_on :: "char \<Rightarrow> string \<Rightarrow> string list" where
  "split_on sep [] = [[]]"
| "split_on sep (c # cs) =
     (if c = sep then [] # split_on sep cs
      else (case split_on sep cs of [] \<Rightarrow> [[c]] | p # ps \<Rightarrow> (c # p) # ps))"

definition parse_field :: "string \<Rightarrow> (string \<times> string) list" where
  "parse_field nv =
     (case dropWhile (\<lambda>c. c \<noteq> CHR ''='') nv of
        [] \<Rightarrow> []
      | _ # v \<Rightarrow>
          if v = [] then []
          else [(unquote (plus_to_space (takeWhile (\<lambda>c. c \<noteq> CHR ''='') nv)),
                 unquote (plus_to_space v))])"

definition parse_qsl :: "string \<Rightarrow> (string \<times> string) list" where
  "parse_qsl qs = concat (map parse_field (split_on CHR ''&'' qs))"

text \<open>
  \<^verbatim>\<open>parse_qs\<close> collects the values of each name in a list, in their order:
  \<^verbatim>\<open>"code" in qs\<close> says that some pair has the name, and \<^verbatim>\<open>qs["code"][0]\<close> is the
  value of the first such pair.
\<close>

definition parse_qs :: "string \<Rightarrow> string \<rightharpoonup> string list" where
  "parse_qs qs name =
     (case filter (\<lambda>(n, v). n = name) (parse_qsl qs) of
        [] \<Rightarrow> None
      | p # ps \<Rightarrow> Some (map snd (p # ps)))"

subsection \<open>The callback handler\<close>

definition success_page :: page where
  "success_page =
     \<lparr>status = 200,
      page_headers = [(''Content-Type'', ''text/html; charset=utf-8'')],
      html = ''<html><body><h2>Authorized. You can close this window.</h2></body></html>''\<rparr>"

definition failure_page :: page where
  "failure_page =
     \<lparr>status = 400,
      page_headers = [],
      html = ''<html><body><h2>No code found.</h2></body></html>''\<rparr>"

text \<open>
  \<^verbatim>\<open>CallbackHandler.do_GET\<close>, on the request target and the class attribute
  \<^verbatim>\<open>auth_code\<close>: it returns the attribute afterwards and the response it writes, or
  raises before it has written anything.
\<close>

definition do_GET :: "world \<Rightarrow> string \<Rightarrow> string option \<Rightarrow> exn + string option \<times> page" where
  "do_GET w path auth_code =
     (case urlparse_query w path of
        Inl e \<Rightarrow> Inl e
      | Inr query \<Rightarrow>
          (let qs = parse_qs query
           in case qs ''code'' of
                Some vs \<Rightarrow> Inr (Some (hd vs), success_page)
              | None \<Rightarrow> Inr (auth_code, failure_page)))"

subsection \<open>The flow\<close>

definition sample_config :: json where
  "sample_config =
     JObj [(''client_id'', JStr ''YOUR_CLIENT_ID''),
           (''client_secret'', JStr ''YOUR_CLIENT_SECRET''),
           (''redirect_uri'', JStr ''http://127.0.0.1:8080/''),
           (''scope'', JStr ''activity''),
           (''default_port'', JInt 8080)]"

definition load_config :: "world \<Rightarrow> (exn + json) \<times> world" where
  "load_config w =
     (case files w CONFIG_FILE of
        None \<Rightarrow>
          (let w1 = write_json CONFIG_FILE sample_config w;
               w2 = print [PStr (''Created sample '' @ CONFIG_FILE @
                   ''. Please edit it with your app credentials and run again.'')] w1
           in (Inl (SystemExit (ExitCode 1)), w2))
      | Some NotJson \<Rightarrow> (Inl JSONDecodeError, w)
      | Some (Json cfg) \<Rightarrow> (Inr cfg, w))"

definition save_tokens :: "json \<Rightarrow> world \<Rightarrow> (exn + unit) \<times> world" where
  "save_tokens d w =
     (case subscript d ''access_token'' of Inl e \<Rightarrow> (Inl e, w) | Inr atok \<Rightarrow>
     (case get d ''refresh_token'' JNull of Inl e \<Rightarrow> (Inl e, w) | Inr rtok \<Rightarrow>
     (case get d ''scope'' JNull of Inl e \<Rightarrow> (Inl e, w) | Inr sc \<Rightarrow>
     (case get d ''token_type'' JNull of Inl e \<Rightarrow> (Inl e, w) | Inr tt \<Rightarrow>
     (case get d ''expires_in'' JNull of Inl e \<Rightarrow> (Inl e, w) | Inr ex \<Rightarrow>
        (let (now, w1) = utcnow w;
             out = JObj [(''access_token'', atok), (''refresh_token'', rtok), (''scope'', sc),
                         (''token_type'', tt), (''expires_in'', ex),
                         (''updated_at'', JStr (iso now @ ''Z''))];
             w2 = write_json TOKEN_FILE out w1;
             w3 = print [PStr (''Saved tokens to '' @ TOKEN_FILE)] w2
         in (Inr (), w3)))))))"

definition exchange_request :: "json \<Rightarrow> json \<Rightarrow> string \<Rightarrow> json \<Rightarrow> request" where
  "exchange_request cid csec code redirect_uri =
     \<lparr>verb = POST, url = token_url,
      headers = [(''Authorization'', Basic cid csec), (''Content-Type'', form_urlencoded)],
      data = [(''grant_type'', JStr ''authorization_code''),
              (''code'', JStr code),
              (''redirect_uri'', redirect_uri),
              (''client_id'', cid)]\<rparr>"

text \<open>\<^verbatim>\<open>r.raise_for_status()\<close> raises on the statuses from 400 to 599.\<close>

definition exchange_code_for_token ::
  "json \<Rightarrow> json \<Rightarrow> string \<Rightarrow> json \<Rightarrow> world \<Rightarrow> (exn + json) \<times> world" where
  "exchange_code_for_token cid csec code redirect_uri w =
     (case send (exchange_request cid csec code redirect_uri) w of
        (Inl e, w1) \<Rightarrow> (Inl e, w1)
      | (Inr r, w1) \<Rightarrow>
          if 400 \<le> status_code r \<and> status_code r < 600 then (Inl (HTTPError (status_code r)), w1)
          else (case body r of NotJson \<Rightarrow> (Inl JSONDecodeError, w1) | Json v \<Rightarrow> (Inr v, w1)))"

text \<open>
  \<^verbatim>\<open>run_local_server(port)\<close> binds the listener and starts the thread that handles one
  request: the port must be an int (a bool is one) that fits a port number, and the
  address must be free.
\<close>

definition run_local_server :: "json \<Rightarrow> world \<Rightarrow> exn + unit" where
  "run_local_server port w =
     (case (case port of JInt n \<Rightarrow> Some n | JBool b \<Rightarrow> Some (if b then 1 else 0) | _ \<Rightarrow> None) of
        None \<Rightarrow> Inl TypeError
      | Some n \<Rightarrow>
          if n < 0 \<or> 65535 < n then Inl OverflowError
          else if callback w = BindFails then Inl OSError
          else Inr ())"

text \<open>
  \<^verbatim>\<open>thread.join(timeout=300)\<close>: by the time it returns, the thread has handled the one
  request, if one came. The result is \<^verbatim>\<open>CallbackHandler.auth_code\<close>, which starts as
  None. An exception of the handler ends the thread's request with no page; the server
  catches it.
\<close>

definition join :: "world \<Rightarrow> string option \<times> world" where
  "join w =
     (case callback w of
        GetRequest path \<Rightarrow>
          (case do_GET w path None of
             Inl e \<Rightarrow> (None, w)
           | Inr (code, pg) \<Rightarrow> (code, w\<lparr>served := served w @ [pg]\<rparr>))
      | _ \<Rightarrow> (None, w))"

definition authorize_url :: string where
  "authorize_url = ''https://www.fitbit.com/oauth2/authorize?''"

text \<open>
  \<^verbatim>\<open>main\<close> of the Authorizer. \<^verbatim>\<open>webbrowser.open\<close> is tried and its failure ignored;
  it changes nothing here.
\<close>

definition login_main :: "world \<Rightarrow> (exn + unit) \<times> world" where
  "login_main w =
     (case load_config w of (Inl e, w1) \<Rightarrow> (Inl e, w1) | (Inr cfg, w1) \<Rightarrow>
     (case subscript cfg ''client_id'' of Inl e \<Rightarrow> (Inl e, w1) | Inr cid \<Rightarrow>
     (case subscript cfg ''client_secret'' of Inl e \<Rightarrow> (Inl e, w1) | Inr csec \<Rightarrow>
     (case get cfg ''redirect_uri'' (JStr ''http://127.0.0.1:8080/'') of
        Inl e \<Rightarrow> (Inl e, w1) | Inr redirect \<Rightarrow>
     (case get cfg ''scope'' (JStr ''activity'') of Inl e \<Rightarrow> (Inl e, w1) | Inr scope \<Rightarrow>
     (case get cfg ''default_port'' (JInt 8080) of Inl e \<Rightarrow> (Inl e, w1) | Inr port \<Rightarrow>
        (let params = [(''client_id'', cid), (''response_type'', JStr ''code''),
                       (''scope'', scope), (''redirect_uri'', redirect)];
             w2 = print [PStr ''Open this URL in your browser and Allow the app:''] w1;
             w3 = print [PUrl authorize_url params] w2;
             w4 = print [PStr (CHR 0x0A # ''Trying to open browser automatically...'')] w3
         in case run_local_server port w4 of
              Inl e \<Rightarrow> (Inl e, w4)
            | Inr _ \<Rightarrow>
                (let w5 = print [PFmt [PStr ''Waiting for redirect on http://127.0.0.1:'',
                                       PVal port, PStr ''/ ...'']] w4;
                     (code, w6) = join w5
                 in if code = None \<or> code = Some [] then
                      (Inl (SystemExit (ExitCode 1)),
                       print [PStr ''No code received. Make sure redirect uri matches and you allowed the app.''] w6)
                    else
                      (let w7 = print [PStr ''Got code, exchanging for token...''] w6
                       in case exchange_code_for_token cid csec (the code) redirect w7 of
                            (Inl e, w8) \<Rightarrow> (Inl e, w8)
                          | (Inr token_data, w8) \<Rightarrow>
                              (case save_tokens token_data w8 of
                                 (Inl e, w9) \<Rightarrow> (Inl e, w9)
                               | (Inr _, w9) \<Rightarrow>
                                   (Inr (), print [PStr ''Done. You can upload fitbit_tokens.json to your host server.''] w9)))))))))))"

text \<open>
  The Authorizer as a script: \<^verbatim>\<open>try: main()  except Exception as e: print("Error:", e)\<close>.
  SystemExit is not an \<^verbatim>\<open>Exception\<close> and passes; any other exception is printed, and
  the script runs to its end.
\<close>

definition login_script :: "world \<Rightarrow> int \<times> world" where
  "login_script w =
     (case login_main w of
        (Inl (SystemExit a), w') \<Rightarrow> (exit_code (Inl (SystemExit a)), w')
      | (Inl e, w') \<Rightarrow> (0, print [PStr ''Error:'', PExn e] w')
      | (Inr _, w') \<Rightarrow> (0, w'))"

section \<open>Vocabulary of the properties\<close>

text \<open>The keys of a persisted record, in their order.\<close>

definition record_keys :: "document \<Rightarrow> string list option" where
  "record_keys d = (case d of Json (JObj kvs) \<Rightarrow> Some (map fst kvs) | _ \<Rightarrow> None)"

text \<open>
  What a run of the Runner may do to the files: a file either is as before, or it is the
  credential record and holds the three keys the Runner writes.
\<close>

definition runner_wrote :: "(string \<rightharpoonup> document) \<Rightarrow> (string \<rightharpoonup> document) \<Rightarrow> bool" where
  "runner_wrote fs fs' =
     (\<forall>f. fs' f = fs f \<or>
          (f = TOKEN_FILE \<and>
           (\<exists>d. fs' f = Some d \<and>
                record_keys d = Some [''access_token'', ''refresh_token'', ''updated_at''])))"

subsection \<open>Concrete worlds\<close>

text \<open>
  The interpreter of the examples. Of the strings it converts those of one to 4300 decimal
  digits; the examples convert no string, their configuration gives no step count. It
  accepts every request target: those of the examples are in origin form, which every
  \<^verbatim>\<open>urlparse\<close> accepts. An example with a rejected target overrides the field.
\<close>

fun decimal_value :: "string \<Rightarrow> nat \<Rightarrow> nat option" where
  "decimal_value [] acc = Some acc"
| "decimal_value (c # cs) acc =
     (if 48 \<le> (of_char c :: nat) \<and> (of_char c :: nat) \<le> 57
      then decimal_value cs (acc * 10 + (of_char c - 48))
      else None)"

definition int_of_str0 :: "string \<Rightarrow> int option" where
  "int_of_str0 s =
     (if s = [] \<or> 4300 < length s then None else map_option int (decimal_value s 0))"

definition clock0 :: "nat \<Rightarrow> datetime" where
  "clock0 n = \<lparr>ymd = ''2024-05-01'', iso = ''2024-05-01T06:00:00''\<rparr>"

definition config0 :: json where
  "config0 = JObj [(''client_id'', JStr ''ID''), (''client_secret'', JStr ''SECRET'')]"

definition tokens0 :: json where
  "tokens0 =
     JObj [(''access_token'', JStr ''A1''), (''refresh_token'', JStr ''R1''),
           (''scope'', JStr ''activity''), (''token_type'', JStr ''Bearer''),
           (''expires_in'', JInt 28800), (''updated_at'', JStr ''2024-04-30T06:00:00Z'')]"

text \<open>A configured installation, with the replies of the service and the callback event.\<close>

definition world0 :: "reply list \<Rightarrow> inbound \<Rightarrow> world" where
  "world0 rs cb =
     \<lparr>files = [CONFIG_FILE \<mapsto> Json config0, TOKEN_FILE \<mapsto> Json tokens0],
      replies = rs, sent = [], clock = clock0, ticks = 0, stdout = [],
      callback = cb, served = [], int_of_str = int_of_str0, urlparse_raises = (\<lambda>target. False)\<rparr>"

text \<open>A directory with no file.\<close>

definition bare_world :: world where
  "bare_world =
     \<lparr>files = Map.empty, replies = [], sent = [], clock = clock0, ticks = 0, stdout = [],
      callback = NoRequest, served = [], int_of_str = int_of_str0,
      urlparse_raises = (\<lambda>target. False)\<rparr>"

text \<open>The object \<^verbatim>\<open>FitbitHost()\<close> builds in \<open>world0\<close>.\<close>

definition host0 :: FitbitHost where
  "host0 =
     \<lparr>client_id = JStr ''ID'', client_secret = JStr ''SECRET'', daily_steps = 10000,
      start_time = JStr ''08:00'', access_token = JStr ''A1'', refresh_token = JStr ''R1''\<rparr>"

text \<open>A field of the credential record on disk.\<close>

definition persisted :: "world \<Rightarrow> string \<Rightarrow> json option" where
  "persisted w k =
     (case files w TOKEN_FILE of Some (Json (JObj kvs)) \<Rightarrow> map_of kvs k | _ \<Rightarrow> None)"

text \<open>A reply of the token endpoint: status 200 and a JSON object.\<close>

definition refresh_reply :: "(string \<times> json) list \<Rightarrow> reply" where
  "refresh_reply kvs = Reply \<lparr>status_code = 200, body = Json (JObj kvs)\<rparr>"

subsection \<open>Requests of a run\<close>

text \<open>The kinds of request: to the token endpoint, and to the log-activities endpoint.\<close>

definition is_refresh :: "request \<Rightarrow> bool" where
  "is_refresh rq = (verb rq = POST \<and> url rq = token_url)"

definition is_submission :: "request \<Rightarrow> bool" where
  "is_submission rq = (verb rq = POST \<and> url rq = base_api @ ''/activities.json'')"


subsection \<open>Printed text\<close>

text \<open>
  \<^verbatim>\<open>str\<close> of an int, and the text of a printed line for the arguments whose
  \<^verbatim>\<open>str\<close> is covered here (strings, ints, None, bools): the arguments joined by spaces.
\<close>

fun digits_of :: "nat \<Rightarrow> string" where
  "digits_of n =
     (if n < 10 then [char_of (48 + n)] else digits_of (n div 10) @ [char_of (48 + n mod 10)])"

definition str_int :: "int \<Rightarrow> string" where
  "str_int i = (if i < 0 then CHR ''-'' # digits_of (nat (- i)) else digits_of (nat i))"

fun py_str :: "item \<Rightarrow> string option" where
  "py_str (PStr s) = Some s"
| "py_str (PVal (JInt n)) = Some (str_int n)"
| "py_str (PVal (JStr s)) = Some s"
| "py_str (PVal JNull) = Some ''None''"
| "py_str (PVal (JBool b)) = Some (if b then ''True'' else ''False'')"
| "py_str _ = None"

fun render_line :: "item list \<Rightarrow> string option" where
  "render_line [] = Some []"
| "render_line [x] = py_str x"
| "render_line (x # y # ys) =
     (case py_str x of
        None \<Rightarrow> None
      | Some s \<Rightarrow> (case render_line (y # ys) of None \<Rightarrow> None | Some t \<Rightarrow> Some (s @ '' '' @ t)))"

text \<open>The requests sent between two states of the world.\<close>

definition run_requests :: "world \<Rightarrow> world \<Rightarrow> request list" where
  "run_requests w w' = drop (length (sent w)) (sent w')"


definition logged_reply :: reply where
  "logged_reply =
     Reply \<lparr>status_code = 201,
            body = Json (JObj [(''activityLog'', JObj [(''logId'', JInt 123)])])\<rparr>"

subsection \<open>The parameters of a query string\<close>




subsection \<open>Exit codes\<close>

text \<open>
  The Authorizer gets as far as waiting for the callback: the configuration is a JSON
  object with client_id and client_secret, and the listener is bound.
\<close>

definition awaits_code :: "world \<Rightarrow> bool" where
  "awaits_code w =
     (case files w CONFIG_FILE of
        Some (Json (JObj kvs)) \<Rightarrow>
          map_of kvs ''client_id'' \<noteq> None \<and> map_of kvs ''client_secret'' \<noteq> None \<and>
          run_local_server
            (case map_of kvs ''default_port'' of None \<Rightarrow> JInt 8080 | Some p \<Rightarrow> p) w = Inr ()
      | _ \<Rightarrow> False)"


subsection \<open>The run after the probe\<close>

text \<open>
  The world of a run of the Runner once the line \<^verbatim>\<open>Running at\<close> is printed and the probe
  is answered.
\<close>

definition after_probe :: "FitbitHost \<Rightarrow> world \<Rightarrow> world" where
  "after_probe h w =
     (print [PStr ''Running at'', PStr (iso (clock w (ticks w)) @ ''Z'')]
        (w\<lparr>ticks := Suc (ticks w)\<rparr>))
     \<lparr>ticks := Suc (Suc (ticks w)), replies := tl (replies w),
      sent := sent w @ [probe_request h (clock w (Suc (ticks w)))]\<rparr>"

subsection \<open>The entry submitted\<close>

text \<open>A rational rounded to three decimals, a tie to the even one.\<close>

definition decimal_round3 :: "rat \<Rightarrow> rat" where
  "decimal_round3 q = of_int (rne (q * 1000)) / 1000"

text \<open>The first request of a run, if it sends one.\<close>

definition first_request :: "world \<Rightarrow> world \<Rightarrow> request option" where
  "first_request w w' = (case run_requests w w' of [] \<Rightarrow> None | rq # _ \<Rightarrow> Some rq)"

section \<open>Basic facts\<close>

lemma snd_send [simp]:
  "snd (send rq w) = w\<lparr>replies := tl (replies w), sent := sent w @ [rq]\<rparr>"
  by (auto simp: send_def split: list.splits reply.splits)

lemma fst_send:
  "fst (send rq w) = (case replies w of Reply r # rs \<Rightarrow> Inr r | _ \<Rightarrow> Inl ConnectionError)"
  by (auto simp: send_def split: list.splits reply.splits)

lemma print_frame [simp]:
  "sent (print l w) = sent w" "files (print l w) = files w" "replies (print l w) = replies w"
  "clock (print l w) = clock w" "ticks (print l w) = ticks w"
  "stdout (print l w) = stdout w @ [l]" "callback (print l w) = callback w"
  "served (print l w) = served w" "int_of_str (print l w) = int_of_str w"
  "urlparse_raises (print l w) = urlparse_raises w"
  by (simp_all add: print_def)

lemma write_json_frame [simp]:
  "sent (write_json f v w) = sent w" "files (write_json f v w) = (files w)(f \<mapsto> Json v)"
  "replies (write_json f v w) = replies w"
  "clock (write_json f v w) = clock w" "ticks (write_json f v w) = ticks w"
  "stdout (write_json f v w) = stdout w"
  by (simp_all add: write_json_def)

lemma save_tokens_frame [simp]:
  "fst (FitbitHost_save_tokens h a r w) = h\<lparr>access_token := a, refresh_token := r\<rparr>"
  "sent (snd (FitbitHost_save_tokens h a r w)) = sent w"
  "replies (snd (FitbitHost_save_tokens h a r w)) = replies w"
  "files (snd (FitbitHost_save_tokens h a r w)) = (files w)(TOKEN_FILE \<mapsto>
       Json (JObj [(''access_token'', a), (''refresh_token'', r),
                   (''updated_at'', JStr (iso (clock w (ticks w)) @ ''Z''))]))"
  "stdout (snd (FitbitHost_save_tokens h a r w)) = stdout w @ [[PStr (''Updated '' @ TOKEN_FILE)]]"
  "clock (snd (FitbitHost_save_tokens h a r w)) = clock w"
  "ticks (snd (FitbitHost_save_tokens h a r w)) = Suc (ticks w)"
  by (simp_all add: FitbitHost_save_tokens_def utcnow_def Let_def)

lemma refresh_sent [simp]:
  "sent (snd (FitbitHost_refresh_access_token h w)) = sent w @ [refresh_request h]"
  by (simp add: FitbitHost_refresh_access_token_def Let_def split_beta
      split: sum.splits document.splits)

lemma refresh_replies [simp]:
  "replies (snd (FitbitHost_refresh_access_token h w)) = tl (replies w)"
  by (simp add: FitbitHost_refresh_access_token_def Let_def split_beta
      split: sum.splits document.splits)

lemma refresh_clock [simp]:
  "clock (snd (FitbitHost_refresh_access_token h w)) = clock w"
  by (simp add: FitbitHost_refresh_access_token_def Let_def split_beta
      split: sum.splits document.splits)

subsection \<open>The files a run leaves\<close>

lemma runner_wrote_refl [simp]: "runner_wrote fs fs"
  by (simp add: runner_wrote_def)

lemma runner_wrote_trans:
  "runner_wrote fs fs' \<Longrightarrow> runner_wrote fs' fs'' \<Longrightarrow> runner_wrote fs fs''"
  unfolding runner_wrote_def by metis

lemma runner_wrote_save [simp]:
  "runner_wrote fs (fs(TOKEN_FILE \<mapsto>
       Json (JObj [(''access_token'', a), (''refresh_token'', r), (''updated_at'', JStr t)])))"
  by (simp add: runner_wrote_def record_keys_def)

lemma refresh_wrote:
  "runner_wrote (files w) (files (snd (FitbitHost_refresh_access_token h w)))"
  by (simp add: FitbitHost_refresh_access_token_def Let_def split_beta
      split: sum.splits document.splits)

lemma refresh_if_needed_wrote:
  "runner_wrote (files w) (files (snd (FitbitHost_refresh_if_needed h w)))"
  using refresh_wrote [of "(snd (utcnow w))\<lparr>replies := tl (replies w),
      sent := sent w @ [probe_request h (fst (utcnow w))]\<rparr>" h]
  by (simp add: FitbitHost_refresh_if_needed_def Let_def split_beta utcnow_def
      split: sum.splits)

lemma report_files [simp]:
  "files (snd (log_steps_report h s d r w)) = files w"
  by (simp add: log_steps_report_def Let_def split: sum.splits document.splits bool.splits)

lemma log_steps_wrote:
  "runner_wrote (files w) (files (snd (FitbitHost_log_steps h s d t w)))"
proof -
  have *: "runner_wrote (files w) (files (snd (FitbitHost_refresh_access_token h w')))"
    if "files w' = files w" for w'
    using refresh_wrote [of w' h] that by simp
  show ?thesis
    by (simp add: FitbitHost_log_steps_def Let_def split_beta utcnow_def *
        split: sum.splits option.splits)
qed

lemma host_main_wrote:
  "runner_wrote (files w) (files (snd (host_main w)))"
proof (cases "FitbitHost_init w")
  case (Inl e)
  then show ?thesis by (simp add: host_main_def)
next
  case (Inr h)
  let ?w2 = "print [PStr ''Running at'', PStr (iso (fst (utcnow w)) @ ''Z'')] (snd (utcnow w))"
  have f2: "files ?w2 = files w" by (simp add: utcnow_def)
  have a: "runner_wrote (files w) (files (snd (FitbitHost_refresh_if_needed h ?w2)))"
    using refresh_if_needed_wrote [of ?w2 h] f2 by simp
  have b: "runner_wrote (files w) (files (snd (FitbitHost_log_steps h1 None None None
              (snd (FitbitHost_refresh_if_needed h ?w2)))))" for h1
    using a log_steps_wrote runner_wrote_trans by blast
  show ?thesis
    using a b by (simp add: host_main_def Inr Let_def split_beta split: sum.splits)
qed

subsection \<open>Missing files\<close>

lemma init_config_missing:
  "files w CONFIG_FILE = None \<Longrightarrow> \<exists>m. FitbitHost_init w = Inl (SystemExit (ExitMsg m))"
  by (simp add: FitbitHost_init_def FitbitHost_load_config_def)

lemma load_tokens_missing:
  "files w TOKEN_FILE = None \<Longrightarrow> \<exists>m. FitbitHost_load_tokens w = Inl (SystemExit (ExitMsg m))"
  by (simp add: FitbitHost_load_tokens_def)

lemma init_tokens_missing:
  "files w TOKEN_FILE = None \<Longrightarrow> \<exists>e. FitbitHost_init w = Inl e"
  using load_tokens_missing [of w]
  by (auto simp: FitbitHost_init_def split: sum.splits)

lemma login_config_missing:
  "files w CONFIG_FILE = None \<Longrightarrow>
     login_main w = (Inl (SystemExit (ExitCode 1)),
       print [PStr (''Created sample '' @ CONFIG_FILE @
                   ''. Please edit it with your app credentials and run again.'')]
         (write_json CONFIG_FILE sample_config w))"
  by (simp add: login_main_def load_config_def Let_def)

subsection \<open>The refresh\<close>

lemma init_world0 [simp]: "FitbitHost_init (world0 rs cb) = Inr host0"
  by (simp add: FitbitHost_init_def FitbitHost_load_config_def FitbitHost_load_tokens_def
      world0_def config0_def tokens0_def host0_def subscript_def get_def py_int_def
      CONFIG_FILE_def TOKEN_FILE_def)

lemma refresh_ok:
  assumes "replies w = Reply r # rs" "status_code r = 200" "body r = Json (JObj kvs)"
    "map_of kvs ''access_token'' = Some a"
  shows "FitbitHost_refresh_access_token h w =
           (let rt = (case map_of kvs ''refresh_token'' of None \<Rightarrow> JNull | Some v \<Rightarrow> v)
            in (Inr (True, h\<lparr>access_token := a, refresh_token := rt\<rparr>),
                snd (FitbitHost_save_tokens h a rt
                  (w\<lparr>replies := rs, sent := sent w @ [refresh_request h]\<rparr>))))"
  using assms
  by (simp add: FitbitHost_refresh_access_token_def send_def subscript_def get_def Let_def
      split_beta)


subsection \<open>Requests of the Runner\<close>

lemma report_frame [simp]:
  "sent (snd (log_steps_report h s d r w)) = sent w"
  "replies (snd (log_steps_report h s d r w)) = replies w"
  by (simp_all add: log_steps_report_def Let_def split: sum.splits document.splits bool.splits)

lemma kinds [simp]:
  "is_refresh (refresh_request h)" "\<not> is_submission (refresh_request h)"
  "\<not> is_refresh (probe_request h now)" "\<not> is_submission (probe_request h now)"
  "is_submission (log_request h s x d t)" "\<not> is_refresh (log_request h s x d t)"
  by (simp_all add: is_refresh_def is_submission_def refresh_request_def probe_request_def
      log_request_def token_url_def base_api_def Let_def)







lemma render_logId: "render_line [PStr ''logId:'', PVal (JInt 123)] = Some ''logId: 123''"
  by code_simp

lemma float_10000: "float_of_int 10000 = Some 10000"
  by code_simp

lemma distance_10000: "py_round3 (float_mul 10000 c0008) = 8"
  by code_simp





lemma world0_fields [simp]:
  "replies (world0 rs cb) = rs" "sent (world0 rs cb) = []" "ticks (world0 rs cb) = 0"
  "clock (world0 rs cb) = clock0" "stdout (world0 rs cb) = []" "callback (world0 rs cb) = cb"
  "served (world0 rs cb) = []" "int_of_str (world0 rs cb) = int_of_str0"
  "urlparse_raises (world0 rs cb) = (\<lambda>target. False)"
  "files (world0 rs cb) = [CONFIG_FILE \<mapsto> Json config0, TOKEN_FILE \<mapsto> Json tokens0]"
  by (simp_all add: world0_def)




lemma host0_fields [simp]:
  "daily_steps host0 = 10000" "start_time host0 = JStr ''08:00''"
  "access_token host0 = JStr ''A1''" "refresh_token host0 = JStr ''R1''"
  "client_id host0 = JStr ''ID''" "client_secret host0 = JStr ''SECRET''"
  by (simp_all add: host0_def)

lemma str_int_123: "str_int 123 = ''123''"
  by code_simp

lemma report_logged:
  assumes "body r = Json (JObj [(''activityLog'', JObj [(''logId'', v)])])"
    "status_code r = 201"
  shows "log_steps_report h s d r w =
     (Inr (True, h),
      print [PStr ''logId:'', PVal v]
        (print [PStr ''Logged steps:'', PVal (JInt s), PStr ''date:'', PVal d] w))"
  using assms by (simp add: log_steps_report_def Let_def contains_def subscript_def)

subsection \<open>The callback\<close>

lemma unquote_to_bytes_Nil [simp]: "unquote_to_bytes s = [] \<longleftrightarrow> s = []"
  by (induction s rule: unquote_to_bytes.induct) auto

lemma replacement_Nil [simp]: "replacement \<noteq> []"
  by (simp add: replacement_def)

lemma decode_replace_Nil [simp]: "decode_replace s = [] \<longleftrightarrow> s = []"
  by (cases s) (simp_all add: Let_def split: list.splits)

lemma unquote_Nil [simp]: "unquote s = [] \<longleftrightarrow> s = []"
  by (cases s) simp_all

lemma plus_to_space_Nil [simp]: "plus_to_space s = [] \<longleftrightarrow> s = []"
  by (simp add: plus_to_space_def)





subsection \<open>Exit codes of the scripts\<close>






lemma run_local_server_print [simp]:
  "run_local_server port (print l w) = run_local_server port w"
  by (simp add: run_local_server_def)

lemma do_GET_print [simp]: "do_GET (print l w) path code = do_GET w path code"
  by (simp add: do_GET_def urlparse_query_def)

lemma join_print [simp]:
  "fst (join (print l w)) = fst (join w)"
  "replies (snd (join w)) = replies w"
  by (simp_all add: join_def split: inbound.splits sum.splits prod.splits)







lemma exit_code_simps [simp]:
  "exit_code (Inl ConnectionError) = 1" "exit_code (Inl JSONDecodeError) = 1"
  "exit_code (Inl OverflowError) = 1" "exit_code (Inl TypeError) = 1"
  "exit_code (Inl OSError) = 1" "exit_code (Inl (HTTPError n)) = 1"
  "exit_code (Inl (SystemExit (ExitCode n))) = n" "exit_code (Inr u) = 0"
  by (simp_all add: exit_code_def)


















lemma awaits_code_world0 [simp]: "awaits_code (world0 rs cb) = (cb \<noteq> BindFails)"
  by (simp add: awaits_code_def world0_def config0_def run_local_server_def CONFIG_FILE_def
      TOKEN_FILE_def)



subsection \<open>The run after the probe\<close>


lemma after_probe_fields [simp]:
  "sent (after_probe h w) = sent w @ [probe_request h (clock w (Suc (ticks w)))]"
  "replies (after_probe h w) = tl (replies w)"
  "ticks (after_probe h w) = Suc (Suc (ticks w))"
  "clock (after_probe h w) = clock w"
  "files (after_probe h w) = files w"
  by (simp_all add: after_probe_def)















subsection \<open>Float arithmetic\<close>

lemma rne_of_int [simp]: "rne (of_int m) = m"
  by (simp add: rne_def)

lemma quotient_of_pow2: "quotient_of ((2::rat) ^ n) = (2 ^ n, 1)"
proof -
  have "(2::rat) ^ n = Rat.of_int (2 ^ n)" by (simp add: Rat.of_int_def)
  then show ?thesis by (simp only: quotient_of_int)
qed

lemma ilog2_pow2: "ilog2 (2 ^ n) = int n"
proof -
  have b: "bitlen (2 ^ n) = int n + 1"
    using bitlen_twopow_add_eq [of 0 n] by simp
  have b1: "bitlen 1 = 1"
    using bitlen_twopow_add_eq [of 0 0] by simp
  show ?thesis
    by (simp add: ilog2_def quotient_of_pow2 b b1)
qed

lemma nearest_double_pow2: "nearest_double (2 ^ n) = 2 ^ n"
proof -
  let ?e = "int n - 52"
  have "(2::rat) ^ n / 2 powi ?e = 2 powi (int n - ?e)"
    by (simp add: power_int_diff)
  then have q: "(2::rat) ^ n / 2 powi ?e = of_int (2 ^ 52)"
    by simp
  have a: "(2::rat) powi 52 * 2 powi ?e = 2 powi (52 + ?e)"
    by (rule power_int_add [symmetric]) simp
  have b: "(2::rat) powi (52 + ?e) = 2 powi (int n)"
    by (rule arg_cong [where f = "\<lambda>k. (2::rat) powi k"]) simp
  have c: "of_int (2 ^ 52) = (2::rat) powi 52"
    by simp
  have "of_int (rne ((2::rat) ^ n / 2 powi ?e)) * (2::rat) powi ?e = 2 powi 52 * 2 powi ?e"
    unfolding q rne_of_int by (simp only: c)
  also have "\<dots> = 2 ^ n"
    by (simp only: a b power_int_of_nat)
  finally show ?thesis
    by (simp add: nearest_double_def ilog2_pow2 Let_def max_def)
qed

lemma float_overflow: "float_of_int (2 ^ 1024) = None"
proof -
  have "nearest_double (of_int (2 ^ 1024)) = 2 ^ 1024"
    using nearest_double_pow2 [of 1024] by simp
  then show ?thesis by (simp add: float_of_int_def Let_def)
qed

lemma rne_near: "\<bar>of_int (rne q) - q\<bar> \<le> 1 / 2"
proof -
  have "of_int \<lfloor>q\<rfloor> \<le> q" "q < of_int \<lfloor>q\<rfloor> + 1" by linarith+
  then show ?thesis by (auto simp: rne_def Let_def)
qed

lemma rne_unique:
  assumes "\<bar>q - of_int k\<bar> < 1 / 2"
  shows "rne q = k"
proof (cases "of_int k \<le> q")
  case True
  then have "\<lfloor>q\<rfloor> = k" using assms by (intro floor_unique) auto
  then show ?thesis using assms True by (simp add: rne_def Let_def)
next
  case False
  then have f: "\<lfloor>q\<rfloor> = k - 1" using assms by (intro floor_unique) auto
  have "1 / 2 < q - of_int (k - 1)" using assms False by auto
  then show ?thesis using f by (simp add: rne_def Let_def)
qed

lemma pow2_less_cancel:
  assumes "(2::rat) powi a < 2 powi b"
  shows "a < b"
proof (rule ccontr)
  assume "\<not> a < b"
  then have "b \<le> a" by simp
  then have "(2::rat) powi b \<le> 2 powi a" by (intro power_int_increasing) auto
  then show False using assms by simp
qed

lemma ilog2_bounds:
  assumes "q \<noteq> 0"
  shows "2 powi ilog2 q \<le> \<bar>q\<bar> \<and> \<bar>q\<bar> < 2 powi (ilog2 q + 1)"
proof -
  obtain a b where ab: "quotient_of \<bar>q\<bar> = (a, b)" by force
  have b0: "0 < b" using quotient_of_denom_pos [OF ab] .
  have q: "\<bar>q\<bar> = of_int a / of_int b" using quotient_of_div [OF ab] .
  have "0 < \<bar>q\<bar>" using assms by simp
  then have a0: "0 < a" using q b0 by (simp add: zero_less_divide_iff)
  let ?la = "bitlen a" and ?lb = "bitlen b"
  have la: "1 \<le> ?la" using a0 bitlen_eq_zero_iff [of a] bitlen_nonneg [of a] by linarith
  have lb: "1 \<le> ?lb" using b0 bitlen_eq_zero_iff [of b] bitlen_nonneg [of b] by linarith
  have cast: "(of_int (2 ^ n) :: rat) = 2 ^ n" for n by simp
  from bitlen_bounds [OF a0] have "2 ^ nat (?la - 1) \<le> a" "a < 2 ^ nat ?la" by auto
  then have "(of_int (2 ^ nat (?la - 1)) :: rat) \<le> of_int a"
    "(of_int a :: rat) < of_int (2 ^ nat ?la)"
    by (simp_all only: of_int_le_iff of_int_less_iff)
  then have A: "(2::rat) powi (?la - 1) \<le> of_int a" "of_int a < (2::rat) powi ?la"
    using la unfolding cast by (simp_all add: power_int_nonneg_exp)
  from bitlen_bounds [OF b0] have "2 ^ nat (?lb - 1) \<le> b" "b < 2 ^ nat ?lb" by auto
  then have "(of_int (2 ^ nat (?lb - 1)) :: rat) \<le> of_int b"
    "(of_int b :: rat) < of_int (2 ^ nat ?lb)"
    by (simp_all only: of_int_le_iff of_int_less_iff)
  then have B: "(2::rat) powi (?lb - 1) \<le> of_int b" "of_int b < (2::rat) powi ?lb"
    using lb unfolding cast by (simp_all add: power_int_nonneg_exp)
  let ?k = "?la - ?lb"
  have up: "\<bar>q\<bar> < 2 powi (?k + 1)"
  proof -
    have "of_int a / of_int b < (2::rat) powi ?la / 2 powi (?lb - 1)"
      using A B b0 a0 by (intro frac_less) auto
    also have "\<dots> = 2 powi (?la - (?lb - 1))" by (simp add: power_int_diff)
    also have "?la - (?lb - 1) = ?k + 1" by simp
    finally show ?thesis using q by simp
  qed
  have lo: "2 powi (?k - 1) \<le> \<bar>q\<bar>"
  proof -
    have "(2::rat) powi (?la - 1) / 2 powi ?lb \<le> of_int a / of_int b"
      using A B b0 a0 by (intro frac_le) auto
    moreover have "(2::rat) powi (?la - 1) / 2 powi ?lb = 2 powi (?la - 1 - ?lb)"
      by (simp add: power_int_diff)
    moreover have "?la - 1 - ?lb = ?k - 1" by simp
    ultimately show ?thesis using q by simp
  qed
  show ?thesis
    using up lo by (simp add: ilog2_def ab Let_def)
qed

lemma nearest_double_error:
  assumes "q \<noteq> 0" "- 1022 \<le> ilog2 q"
  shows "\<bar>nearest_double q - q\<bar> \<le> \<bar>q\<bar> / 2 ^ 53"
proof -
  let ?e = "ilog2 q - 52"
  let ?p = "(2::rat) powi ?e"
  let ?t = "q / ?p"
  have p0: "0 < ?p" by simp
  have nd: "nearest_double q = of_int (rne ?t) * ?p"
    using assms by (simp add: nearest_double_def Let_def max_def)
  have "nearest_double q - q = (of_int (rne ?t) - ?t) * ?p"
    using p0 by (simp add: nd algebra_simps)
  then have "\<bar>nearest_double q - q\<bar> = \<bar>of_int (rne ?t) - ?t\<bar> * ?p"
    using p0 by (simp add: abs_mult)
  also have "\<dots> \<le> 1 / 2 * ?p"
    using rne_near [of ?t] p0 by (intro mult_right_mono) auto
  also have "?p = 2 powi ilog2 q / 2 ^ 52"
    by (simp add: power_int_diff)
  also have "1 / 2 * (2 powi ilog2 q / 2 ^ 52) \<le> 1 / 2 * (\<bar>q\<bar> / 2 ^ 52)"
    using ilog2_bounds [OF assms(1)] by (intro mult_left_mono divide_right_mono) auto
  finally show ?thesis by simp
qed

lemma nearest_double_int:
  assumes "1 \<le> s" "s < 2 ^ 53"
  shows "nearest_double (of_int s) = of_int s"
proof -
  let ?q = "of_int s :: rat"
  let ?L = "ilog2 ?q"
  have q0: "?q \<noteq> 0" using assms by simp
  have qa: "\<bar>?q\<bar> = ?q" using assms by simp
  from ilog2_bounds [OF q0] have b: "2 powi ?L \<le> ?q" "?q < 2 powi (?L + 1)"
    unfolding qa by auto
  have "(2::rat) powi 0 < 2 powi (?L + 1)" using b(2) assms(1) by simp
  then have L0: "0 \<le> ?L" using pow2_less_cancel by fastforce
  have "?q < of_int (2 ^ 53)" using assms(2) by (simp only: of_int_less_iff)
  then have "?q < 2 powi 53" by simp
  then have "(2::rat) powi ?L < 2 powi 53" using b(1) by linarith
  then have L53: "?L < 53" by (rule pow2_less_cancel)
  define n where "n = nat (52 - ?L)"
  have e: "?L - 52 = - int n" using L53 by (simp add: n_def)
  have p: "(2::rat) powi (?L - 52) = 1 / 2 ^ n"
    unfolding e by (simp add: power_int_minus_divide)
  have t: "?q / 2 powi (?L - 52) = of_int (s * 2 ^ n)"
    unfolding p by simp
  have "of_int (rne (?q / 2 powi (?L - 52))) * (2::rat) powi (?L - 52) = ?q"
    unfolding t rne_of_int unfolding p by simp
  then show ?thesis
    using q0 L0 by (simp add: nearest_double_def Let_def max_def)
qed

lemma float_of_int_exact:
  assumes "1 \<le> s" "s < 2 ^ 53"
  shows "float_of_int s = Some (of_int s)"
proof -
  have "(of_int s :: rat) < of_int (2 ^ 53)" using assms(2) by (simp only: of_int_less_iff)
  then have "\<bar>of_int s :: rat\<bar> < 2 ^ 1024" using assms(1) by simp
  then show ?thesis
    by (simp add: float_of_int_def nearest_double_int [OF assms] Let_def)
qed

lemma c0008_value: "c0008 = 7378697629483821 / 2 ^ 63"
  by code_simp

lemma nearest_fifth:
  "\<bar>of_int s * 4 / 5 - (of_int ((4 * s + 2) div 5) :: rat)\<bar> \<le> 2 / 5"
proof -
  define k where "k = (4 * s + 2) div 5"
  have "5 * k \<le> 4 * s + 2" "4 * s + 2 < 5 * k + 5" unfolding k_def by presburger+
  then have "- 2 \<le> 4 * s - 5 * k" "4 * s - 5 * k \<le> 2" by linarith+
  then have "(of_int (- 2) :: rat) \<le> of_int (4 * s - 5 * k)"
    "(of_int (4 * s - 5 * k) :: rat) \<le> of_int 2"
    by (simp_all only: of_int_le_iff)
  then have "- 2 \<le> 4 * (of_int s :: rat) - 5 * of_int k"
    "4 * (of_int s :: rat) - 5 * of_int k \<le> 2"
    by simp_all
  then show ?thesis unfolding k_def [symmetric] by linarith
qed

lemma exact_round:
  "rne (of_int s * 8 / 10000 * 1000) = (4 * s + 2) div 5"
proof (rule rne_unique)
  have "(of_int s :: rat) * 8 / 10000 * 1000 = of_int s * 4 / 5" by simp
  then show "\<bar>of_int s * 8 / 10000 * 1000 - (of_int ((4 * s + 2) div 5) :: rat)\<bar> < 1 / 2"
    using nearest_fifth [of s] by linarith
qed

lemma float_round:
  assumes "1 \<le> s" "s \<le> 10 ^ 14"
  shows "rne (float_mul (of_int s) c0008 * 1000) = (4 * s + 2) div 5"
proof (rule rne_unique)
  let ?S = "of_int s :: rat"
  let ?q = "?S * c0008"
  let ?x = "nearest_double ?q"
  have "(of_int 1 :: rat) \<le> ?S" "?S \<le> of_int (10 ^ 14)"
    using assms by (simp_all only: of_int_le_iff)
  then have S: "1 \<le> ?S" "?S \<le> 10 ^ 14" by simp_all
  have q: "?q = ?S * (7378697629483821 / 2 ^ 63)" by (simp add: c0008_value)
  have q0: "?q \<noteq> 0" "0 < ?q" using S unfolding q by simp_all
  have "(2::rat) powi (- 11) < ?q"
  proof -
    have "(2::rat) powi (- 11) < 1 * (7378697629483821 / 2 ^ 63)"
      by (simp add: power_int_minus_divide)
    also have "\<dots> \<le> ?S * (7378697629483821 / 2 ^ 63)"
      using S(1) by (intro mult_right_mono) auto
    finally show ?thesis unfolding q .
  qed
  also have "?q < 2 powi (ilog2 ?q + 1)"
    using ilog2_bounds [OF q0(1)] q0(2) by simp
  finally have "- 11 < ilog2 ?q + 1" by (rule pow2_less_cancel)
  then have L: "- 1022 \<le> ilog2 ?q" by simp
  define x where "x = ?x"
  define q where "q = ?q"
  define S where "S = ?S"
  define K where "K = (of_int ((4 * s + 2) div 5) :: rat)"
  have "\<bar>?x - ?q\<bar> \<le> \<bar>?q\<bar> / 2 ^ 53" by (rule nearest_double_error [OF q0(1) L])
  then have "\<bar>x - q\<bar> \<le> q / 2 ^ 53"
    using q0(2) by (simp add: x_def q_def)
  then have e1: "\<bar>x - q\<bar> \<le> q / 9007199254740992" by simp
  have e2: "q = S * 7378697629483821 / 9223372036854775808"
    unfolding q_def S_def q by simp
  have fifth: "\<bar>S * 4 / 5 - K\<bar> \<le> 2 / 5"
    unfolding S_def K_def by (rule nearest_fifth)
  have S1: "1 \<le> S" and S2: "S \<le> 100000000000000"
    using S by (simp_all add: S_def)
  have "\<bar>x * 1000 - K\<bar> < 1 / 2"
    using e1 e2 fifth S1 S2 by linarith
  then show "\<bar>float_mul ?S c0008 * 1000 - (of_int ((4 * s + 2) div 5) :: rat)\<bar> < 1 / 2"
    by (simp only: float_mul_def x_def K_def)
qed

subsection \<open>The entry submitted\<close>

lemma log_steps_first:
  assumes "(case sa of None \<Rightarrow> daily_steps h | Some v \<Rightarrow> v) = s" "float_of_int s = Some x"
  shows "\<exists>date st. first_request w (snd (FitbitHost_log_steps h sa d t w)) =
           Some (log_request h s x date st)"
  using assms
  by (auto simp: FitbitHost_log_steps_def Let_def split_beta utcnow_def first_request_def
      run_requests_def split: sum.splits option.splits)

lemma log_request_data:
  "map_of (data (log_request h s x date st)) ''durationMillis'' =
     Some (JInt (max (s div 100) 1 * 60 * 1000))"
  "map_of (data (log_request h s x date st)) ''distance'' =
     Some (JFloat (py_round3 (float_mul x c0008)))"
  "map_of (data (log_request h s x date st)) ''steps'' = Some (JInt s)"
  by (simp_all add: log_request_def Let_def)

lemma distance_exact:
  assumes "1 \<le> s" "s \<le> 10 ^ 14"
  shows "py_round3 (float_mul (of_int s) c0008) =
         nearest_double (decimal_round3 (of_int s * 8 / 10000))"
  by (simp only: py_round3_def decimal_round3_def float_round [OF assms] exact_round)

lemma float_of_int_small:
  assumes "1 \<le> s" "s \<le> 10 ^ 14" "float_of_int s = Some x"
  shows "x = of_int s"
proof -
  have "s < 2 ^ 53" using assms(2) by simp
  from float_of_int_exact [OF assms(1) this] assms(3) show ?thesis by simp
qed

section \<open>Properties\<close>

text \<open>
  C6. If the configuration file or, for the Runner, the credential file is absent, the
  script ends with an exception and has sent no request: the requests recorded at the end
  are those recorded at the start.
\<close>

theorem missing_file_stops_before_network:
  "(files w CONFIG_FILE = None \<or> files w TOKEN_FILE = None \<longrightarrow>
      (\<exists>e. fst (host_main w) = Inl e) \<and> sent (snd (host_main w)) = sent w) \<and>
   (files w CONFIG_FILE = None \<longrightarrow>
      (\<exists>e. fst (login_main w) = Inl e) \<and> sent (snd (login_main w)) = sent w)"
proof -
  have "\<exists>e. FitbitHost_init w = Inl e"
    if "files w CONFIG_FILE = None \<or> files w TOKEN_FILE = None"
    using that init_config_missing [of w] init_tokens_missing [of w] by auto
  then have host: "(\<exists>e. fst (host_main w) = Inl e) \<and> sent (snd (host_main w)) = sent w"
    if "files w CONFIG_FILE = None \<or> files w TOKEN_FILE = None"
    using that by (auto simp: host_main_def)
  have login: "(\<exists>e. fst (login_main w) = Inl e) \<and> sent (snd (login_main w)) = sent w"
    if "files w CONFIG_FILE = None"
    using that by (simp add: login_config_missing)
  show ?thesis using host login by blast
qed

theorem missing_file_stops_before_network_witness:
  "files bare_world CONFIG_FILE = None \<and>
   (\<exists>e. fst (host_main bare_world) = Inl e) \<and> sent (snd (host_main bare_world)) = [] \<and>
   (\<exists>e. fst (login_main bare_world) = Inl e) \<and> sent (snd (login_main bare_world)) = []"
  using missing_file_stops_before_network [of bare_world]
  by (simp add: bare_world_def)

text \<open>
  C9. If the configuration file is absent when the Authorizer starts, it writes the sample
  configuration (placeholder client_id and client_secret, redirect_uri
  http://127.0.0.1:8080/, scope activity, default_port 8080) to that path and exits with
  code 1: the files are not as they were.
\<close>

theorem missing_config_writes_sample:
  assumes "files w CONFIG_FILE = None"
  shows "fst (login_script w) = 1 \<and>
         fst (login_main w) = Inl (SystemExit (ExitCode 1)) \<and>
         files (snd (login_script w)) = (files w)(CONFIG_FILE \<mapsto> Json (JObj
           [(''client_id'', JStr ''YOUR_CLIENT_ID''),
            (''client_secret'', JStr ''YOUR_CLIENT_SECRET''),
            (''redirect_uri'', JStr ''http://127.0.0.1:8080/''),
            (''scope'', JStr ''activity''),
            (''default_port'', JInt 8080)])) \<and>
         files (snd (login_script w)) \<noteq> files w"
proof -
  have "files (snd (login_script w)) CONFIG_FILE \<noteq> files w CONFIG_FILE"
    using assms by (simp add: login_script_def login_config_missing exit_code_def)
  then have "files (snd (login_script w)) \<noteq> files w" by metis
  then show ?thesis
    using assms
    by (simp add: login_script_def login_config_missing exit_code_def sample_config_def)
qed

theorem missing_config_writes_sample_witness:
  "files bare_world CONFIG_FILE = None \<and> fst (login_script bare_world) = 1 \<and>
   files (snd (login_script bare_world)) CONFIG_FILE = Some (Json sample_config)"
  using missing_config_writes_sample [of bare_world]
  by (simp add: bare_world_def sample_config_def)

text \<open>
  C1, as the code has it. A refresh answered with status 200 and a JSON object that has an
  access_token rewrites the whole credential record: access_token from the response,
  updated_at from the clock, and refresh_token from the response when it has one and null
  when it has none.
\<close>

theorem refresh_rewrites_record:
  assumes "replies w = Reply r # rs" and "status_code r = 200"
    and "body r = Json (JObj kvs)" and "map_of kvs ''access_token'' = Some a"
  shows "fst (FitbitHost_refresh_access_token h w) =
           Inr (True, h\<lparr>access_token := a,
                         refresh_token := (case map_of kvs ''refresh_token'' of
                                             None \<Rightarrow> JNull | Some v \<Rightarrow> v)\<rparr>) \<and>
         files (snd (FitbitHost_refresh_access_token h w)) =
           (files w)(TOKEN_FILE \<mapsto> Json (JObj
              [(''access_token'', a),
               (''refresh_token'', (case map_of kvs ''refresh_token'' of
                                      None \<Rightarrow> JNull | Some v \<Rightarrow> v)),
               (''updated_at'', JStr (iso (clock w (ticks w)) @ ''Z''))]))"
  using refresh_ok [OF assms, of h] by (simp add: Let_def)

theorem refresh_rewrites_record_witness:
  "persisted (snd (FitbitHost_refresh_access_token host0
       (world0 [refresh_reply [(''access_token'', JStr ''A2''), (''refresh_token'', JStr ''R2'')]]
          NoRequest))) ''refresh_token'' = Some (JStr ''R2'') \<and>
   persisted (snd (FitbitHost_refresh_access_token host0
       (world0 [refresh_reply [(''access_token'', JStr ''A2''), (''refresh_token'', JStr ''R2'')]]
          NoRequest))) ''access_token'' = Some (JStr ''A2'')"
  using refresh_rewrites_record [of
      "world0 [refresh_reply [(''access_token'', JStr ''A2''), (''refresh_token'', JStr ''R2'')]] NoRequest"
      "\<lparr>status_code = 200, body = Json (JObj [(''access_token'', JStr ''A2''), (''refresh_token'', JStr ''R2'')])\<rparr>"
      "[]" "[(''access_token'', JStr ''A2''), (''refresh_token'', JStr ''R2'')]" "JStr ''A2''" host0]
  by (simp add: world0_def refresh_reply_def persisted_def)

text \<open>
  C1 as stated fails: a 200 response without a refresh_token makes the Runner write null
  over the refresh_token that was on disk.
\<close>

theorem refresh_forgets_omitted_refresh_token:
  "map_of [(''access_token'', JStr ''A2'')] ''refresh_token'' = None \<and>
   fst (FitbitHost_refresh_access_token host0
          (world0 [refresh_reply [(''access_token'', JStr ''A2'')]] NoRequest)) =
     Inr (True, host0\<lparr>access_token := JStr ''A2'', refresh_token := JNull\<rparr>) \<and>
   persisted (world0 [refresh_reply [(''access_token'', JStr ''A2'')]] NoRequest)
     ''refresh_token'' = Some (JStr ''R1'') \<and>
   persisted (snd (FitbitHost_refresh_access_token host0
       (world0 [refresh_reply [(''access_token'', JStr ''A2'')]] NoRequest)))
     ''refresh_token'' = Some JNull"
  by (simp add: FitbitHost_refresh_access_token_def send_def subscript_def get_def Let_def
      split_beta world0_def refresh_reply_def persisted_def tokens0_def TOKEN_FILE_def
      CONFIG_FILE_def)

text \<open>
  C10. Every write of the Runner puts exactly the keys access_token, refresh_token and
  updated_at in the credential record: \<^verbatim>\<open>save_tokens\<close> writes them, a run of
  \<^verbatim>\<open>main\<close> leaves each file as it was or leaves the credential record with these
  keys, and so does each successful refresh, which drops the scope, token_type and
  expires_in the Authorizer wrote.
\<close>

theorem runner_writes_three_keys:
  "(\<exists>d. files (snd (FitbitHost_save_tokens h a r w)) TOKEN_FILE = Some d \<and>
        record_keys d = Some [''access_token'', ''refresh_token'', ''updated_at'']) \<and>
   (files (snd (host_main w)) f = files w f \<or>
      f = TOKEN_FILE \<and>
      (\<exists>d. files (snd (host_main w)) f = Some d \<and>
           record_keys d = Some [''access_token'', ''refresh_token'', ''updated_at''])) \<and>
   (fst (FitbitHost_refresh_access_token h w) = Inr (True, h') \<longrightarrow>
      (\<exists>d. files (snd (FitbitHost_refresh_access_token h w)) TOKEN_FILE = Some d \<and>
           record_keys d = Some [''access_token'', ''refresh_token'', ''updated_at'']))"
proof -
  have 1: "\<exists>d. files (snd (FitbitHost_save_tokens h a r w)) TOKEN_FILE = Some d \<and>
        record_keys d = Some [''access_token'', ''refresh_token'', ''updated_at'']"
    by (simp add: record_keys_def)
  have 2: "files (snd (host_main w)) f = files w f \<or>
      f = TOKEN_FILE \<and>
      (\<exists>d. files (snd (host_main w)) f = Some d \<and>
           record_keys d = Some [''access_token'', ''refresh_token'', ''updated_at''])"
    using host_main_wrote [of w] unfolding runner_wrote_def by blast
  have 3: "\<exists>d. files (snd (FitbitHost_refresh_access_token h w)) TOKEN_FILE = Some d \<and>
           record_keys d = Some [''access_token'', ''refresh_token'', ''updated_at'']"
    if "fst (FitbitHost_refresh_access_token h w) = Inr (True, h')"
    using that
    by (auto simp: FitbitHost_refresh_access_token_def Let_def split_beta record_keys_def
        split: sum.splits document.splits if_splits)
  show ?thesis using 1 2 3 by blast
qed

theorem runner_writes_three_keys_witness:
  "record_keys (Json tokens0) =
     Some [''access_token'', ''refresh_token'', ''scope'', ''token_type'', ''expires_in'',
           ''updated_at''] \<and>
   fst (FitbitHost_refresh_access_token host0
     (world0 [refresh_reply [(''access_token'', JStr ''A2''), (''refresh_token'', JStr ''R2'')]]
        NoRequest)) =
     Inr (True, host0\<lparr>access_token := JStr ''A2'', refresh_token := JStr ''R2''\<rparr>) \<and>
   (\<exists>d. files (snd (FitbitHost_refresh_access_token host0
       (world0 [refresh_reply [(''access_token'', JStr ''A2''), (''refresh_token'', JStr ''R2'')]]
          NoRequest))) TOKEN_FILE = Some d \<and>
        record_keys d = Some [''access_token'', ''refresh_token'', ''updated_at''])"
proof -
  let ?w = "world0 [refresh_reply [(''access_token'', JStr ''A2''), (''refresh_token'', JStr ''R2'')]]
              NoRequest"
  have ok: "fst (FitbitHost_refresh_access_token host0 ?w) =
      Inr (True, host0\<lparr>access_token := JStr ''A2'', refresh_token := JStr ''R2''\<rparr>)"
    by (simp add: FitbitHost_refresh_access_token_def send_def subscript_def get_def Let_def
        split_beta world0_def refresh_reply_def)
  have keys: "record_keys (Json tokens0) =
     Some [''access_token'', ''refresh_token'', ''scope'', ''token_type'', ''expires_in'',
           ''updated_at'']"
    by (simp add: record_keys_def tokens0_def)
  from runner_writes_three_keys [of host0 JNull JNull ?w TOKEN_FILE
      "host0\<lparr>access_token := JStr ''A2'', refresh_token := JStr ''R2''\<rparr>"] ok keys
  show ?thesis by blast
qed






text \<open>
  C7. With the configuration and the credential record loaded, a probe answered 200 and a
  submission answered 201 with body \<^verbatim>\<open>{"activityLog":{"logId":123}}\<close>, the run ends
  normally with exit code 0, prints the lines of a success, among them
  \<^verbatim>\<open>logId: 123\<close>, and leaves every file as it was. The step count is one that
  converts to a float, so that the submission is made.
\<close>

theorem valid_token_run_logs_and_leaves_record:
  assumes "FitbitHost_init w = Inr h"
    and "float_of_int (daily_steps h) = Some x"
    and "replies w = Reply r1 # Reply r2 # rs"
    and "status_code r1 = 200"
    and "status_code r2 = 201"
    and "body r2 = Json (JObj [(''activityLog'', JObj [(''logId'', JInt 123)])])"
  shows "host_script w = (0, snd (host_main w)) \<and>
         fst (host_main w) = Inr () \<and>
         files (snd (host_main w)) = files w \<and>
         stdout (snd (host_main w)) = stdout w @
           [[PStr ''Running at'', PStr (iso (clock w (ticks w)) @ ''Z'')],
            [PStr ''Logged steps:'', PVal (JInt (daily_steps h)), PStr ''date:'',
             PVal (JStr (ymd (clock w (Suc (Suc (ticks w))))))],
            [PStr ''logId:'', PVal (JInt 123)],
            [PStr ''Done.'']] \<and>
         render_line [PStr ''logId:'', PVal (JInt 123)] = Some ''logId: 123''"
  using assms
  by (simp add: host_script_def host_main_def FitbitHost_refresh_if_needed_def
      FitbitHost_log_steps_def utcnow_def send_def Let_def log_steps_report_def
      contains_def subscript_def exit_code_def str_int_123)

theorem valid_token_run_logs_and_leaves_record_witness:
  "fst (host_script (world0 [Reply \<lparr>status_code = 200, body = NotJson\<rparr>, logged_reply] NoRequest)) = 0 \<and>
   files (snd (host_main (world0 [Reply \<lparr>status_code = 200, body = NotJson\<rparr>, logged_reply]
      NoRequest))) TOKEN_FILE = Some (Json tokens0) \<and>
   last (butlast (stdout (snd (host_main
      (world0 [Reply \<lparr>status_code = 200, body = NotJson\<rparr>, logged_reply] NoRequest))))) =
     [PStr ''logId:'', PVal (JInt 123)]"
  using valid_token_run_logs_and_leaves_record [of
      "world0 [Reply \<lparr>status_code = 200, body = NotJson\<rparr>, logged_reply] NoRequest" host0 10000
      "\<lparr>status_code = 200, body = NotJson\<rparr>"
      "\<lparr>status_code = 201, body = Json (JObj [(''activityLog'', JObj [(''logId'', JInt 123)])])\<rparr>"
      "[]"]
  by (simp add: float_10000 logged_reply_def TOKEN_FILE_def CONFIG_FILE_def)







text \<open>
  C5, as the code has it. For a step count \<open>s \<ge> 1\<close> that converts to a float, the first
  request of \<^verbatim>\<open>log_steps\<close> is a submission whose form has the steps \<open>s\<close>, the
  durationMillis \<open>max(\<lfloor>s / 100\<rfloor>, 1) * 60 * 1000\<close> and the distance
  \<^verbatim>\<open>round(s * 0.0008, 3)\<close> of float arithmetic. Up to \<open>10\<^sup>1\<^sup>4\<close> steps that distance is
  the float nearest to \<open>s * 0.0008\<close> rounded to three decimals, and 10000 steps give
  6000000 milliseconds, which are 100 minutes, and the distance 8.0.
\<close>

theorem log_steps_entry:
  assumes "1 \<le> s"
    and "(case steps_arg of None \<Rightarrow> daily_steps h | Some v \<Rightarrow> v) = s"
    and "float_of_int s = Some x"
  shows "\<exists>rq. first_request w (snd (FitbitHost_log_steps h steps_arg d t w)) = Some rq \<and>
           is_submission rq \<and>
           map_of (data rq) ''steps'' = Some (JInt s) \<and>
           map_of (data rq) ''durationMillis'' =
             Some (JInt (max \<lfloor>(of_int s :: rat) / 100\<rfloor> 1 * 60 * 1000)) \<and>
           map_of (data rq) ''distance'' = Some (JFloat (py_round3 (float_mul x c0008))) \<and>
           (s \<le> 10 ^ 14 \<longrightarrow>
              map_of (data rq) ''distance'' =
                Some (JFloat (nearest_double (decimal_round3 (of_int s * 8 / 10000))))) \<and>
           (s = 10000 \<longrightarrow>
              map_of (data rq) ''durationMillis'' = Some (JInt (100 * 60 * 1000)) \<and>
              map_of (data rq) ''distance'' = Some (JFloat 8))"
proof -
  from log_steps_first [OF assms(2,3)] obtain date st where
    f: "first_request w (snd (FitbitHost_log_steps h steps_arg d t w)) =
          Some (log_request h s x date st)"
    by blast
  have fl: "\<lfloor>(of_int s :: rat) / 100\<rfloor> = s div 100"
    using floor_divide_of_int_eq [of s 100, where ?'a = rat] by simp
  have small: "py_round3 (float_mul x c0008) =
      nearest_double (decimal_round3 (of_int s * 8 / 10000))" if "s \<le> 10 ^ 14"
    using distance_exact [OF assms(1) that] float_of_int_small [OF assms(1) that assms(3)]
    by simp
  have ten: "x = 10000" if "s = 10000"
    using assms(3) that by (simp add: float_10000)
  show ?thesis
    using small ten
    by (intro exI [of _ "log_request h s x date st"])
       (auto simp: f log_request_data fl distance_10000)
qed

theorem log_steps_entry_witness:
  "\<exists>rq. first_request (world0 [logged_reply] NoRequest)
           (snd (FitbitHost_log_steps host0 None None None (world0 [logged_reply] NoRequest))) =
           Some rq \<and>
        map_of (data rq) ''durationMillis'' = Some (JInt 6000000) \<and>
        map_of (data rq) ''distance'' = Some (JFloat 8)"
  using log_steps_entry [where s = 10000 and steps_arg = None and h = host0 and x = 10000
      and w = "world0 [logged_reply] NoRequest" and d = None and t = None]
  by (simp add: float_10000) blast

text \<open>
  C5 as stated fails: the step count \<open>2\<^sup>1\<^sup>0\<^sup>2\<^sup>4\<close> does not convert to a float;
  \<^verbatim>\<open>log_steps\<close> raises the OverflowError and submits nothing.
\<close>

theorem huge_step_count_submits_nothing:
  "(1::int) \<le> 2 ^ 1024 \<and>
   fst (FitbitHost_log_steps host0 (Some (2 ^ 1024)) None None
          (world0 [logged_reply] NoRequest)) = Inl OverflowError \<and>
   first_request (world0 [logged_reply] NoRequest)
     (snd (FitbitHost_log_steps host0 (Some (2 ^ 1024)) None None
        (world0 [logged_reply] NoRequest))) = None"
proof -
  have "fst (FitbitHost_log_steps host0 (Some (2 ^ 1024)) None None
          (world0 [logged_reply] NoRequest)) = Inl OverflowError"
    by (simp only: FitbitHost_log_steps_def option.case float_overflow Let_def split_beta fst_conv)
  moreover have "first_request (world0 [logged_reply] NoRequest)
     (snd (FitbitHost_log_steps host0 (Some (2 ^ 1024)) None None
        (world0 [logged_reply] NoRequest))) = None"
    by (simp only: FitbitHost_log_steps_def option.case float_overflow Let_def split_beta snd_conv)
       (simp add: utcnow_def first_request_def run_requests_def)
  moreover have "(1::int) \<le> 2 ^ 1024" by (rule one_le_power) simp
  ultimately show ?thesis by blast
qed

end
